theory Spec2Isabelle
  imports Main
begin

unbundle bit_operations_syntax

section \<open>The persistent set of immutables/set.py\<close>

text \<open>
  A shallow embedding of \<^verbatim>\<open>src/immutables/set.py\<close>. Python integers are \<open>int\<close>.
  Nodes, sets and mutators are objects with identity: each kind lives in a store (a list,
  the address of an object being its index), a constructor call appends to the store, a
  write to a field replaces the entry. \<open>x is y\<close> is equality of addresses. The elements are
  of any type \<open>'a\<close>; \<open>hsh\<close> is the host's \<open>hash()\<close> on them and \<open>==\<close> is equality (hash and
  equality of the elements are taken to be pure and total); \<open>rpr\<close> is the host's \<open>repr()\<close>
  on them, which gives a text or raises. Recursion through the store is bounded by fuel;
  running out of it is the outcome \<open>Diverge\<close>.
\<close>

subsection \<open>Bit arithmetic\<close>

definition set_hash :: "('a \<Rightarrow> int) \<Rightarrow> 'a \<Rightarrow> int" where
  "set_hash hsh o' = (let x = hsh o' in (x AND 0xffffffff) XOR ((drop_bit 32 x) AND 0xffffffff))"

definition set_mask :: "int \<Rightarrow> nat \<Rightarrow> int" where
  "set_mask hash shift = (drop_bit shift hash) AND 0x01f"

definition set_bitpos :: "int \<Rightarrow> nat \<Rightarrow> int" where
  "set_bitpos hash shift = push_bit (nat (set_mask hash shift)) 1"

definition set_bitcount :: "int \<Rightarrow> int" where
  "set_bitcount v0 =
    (let v1 = v0 - ((drop_bit 1 v0) AND 0x55555555);
         v2 = (v1 AND 0x33333333) + ((drop_bit 2 v1) AND 0x33333333);
         v3 = (v2 AND 0x0F0F0F0F) + ((drop_bit 4 v2) AND 0x0F0F0F0F);
         v4 = v3 + (drop_bit 8 v3);
         v5 = (v4 + (drop_bit 16 v4)) AND 0x3F
     in v5)"

definition set_bitindex :: "int \<Rightarrow> int \<Rightarrow> int" where
  "set_bitindex bitmap bitp = set_bitcount (bitmap AND (bitp - 1))"

subsection \<open>Objects, stores and outcomes\<close>

type_synonym addr = nat

text \<open>An entry of a bitmap node's array: an element, or a reference to a node.\<close>

datatype 'a slot = Key 'a | Ref addr

datatype 'a node =
    BitmapNode (bn_size: int) (bn_bitmap: int) (bn_array: "'a slot list") (bn_mutid: nat)
  | CollisionNode (cn_size: int) (cn_hash: int) (cn_array: "'a list") (cn_mutid: nat)

type_synonym 'a heap = "'a node list"

text \<open>
  The exceptions the module raises. \<open>ValueError\<close> is the "mutation has been finished"
  error (its message is not modelled, the evaluation of the message is). \<open>UserError\<close> is
  an exception raised by a method of an element, under its name. \<open>NoObject\<close> is not a
  Python exception: it marks a reference that points outside the store or to an object
  of another class, which no Python run can produce.
\<close>

datatype 'a exn = IndexError | AssertionError | RuntimeError | KeyError 'a | ValueError
  | UserError string | NoObject

text \<open>An outcome carries the store at the moment the call ended.\<close>

datatype ('s, 'e, 'v) outcome = Diverge | Raise 's 'e | Return 's 'v

definition node_at :: "'a heap \<Rightarrow> addr \<Rightarrow> 'a node option" where
  "node_at h a = (if a < length h then Some (h ! a) else None)"

text \<open>Python list indexing \<open>xs[i]\<close> and item assignment \<open>xs[i] = v\<close>.\<close>

definition py_get :: "'b list \<Rightarrow> int \<Rightarrow> 'b option" where
  "py_get xs i =
    (let n = int (length xs); j = (if i < 0 then i + n else i)
     in if 0 \<le> j \<and> j < n then Some (xs ! nat j) else None)"

definition py_set :: "'b list \<Rightarrow> int \<Rightarrow> 'b \<Rightarrow> 'b list option" where
  "py_set xs i v =
    (let n = int (length xs); j = (if i < 0 then i + n else i)
     in if 0 \<le> j \<and> j < n then Some (xs[nat j := v]) else None)"

text \<open>
  \<open>BitmapNode(size, bitmap, array, mutid)\<close>: the constructor asserts
  \<open>len(array) == size\<close>. \<open>CollisionNode(...)\<close> asserts nothing.
\<close>

definition new_BitmapNode ::
  "'a heap \<Rightarrow> int \<Rightarrow> int \<Rightarrow> 'a slot list \<Rightarrow> nat \<Rightarrow> ('a heap, 'a exn, addr) outcome" where
  "new_BitmapNode h sz bitmap array mutid =
    (if int (length array) = sz
     then Return (h @ [BitmapNode sz bitmap array mutid]) (length h)
     else Raise h AssertionError)"

definition new_CollisionNode ::
  "'a heap \<Rightarrow> int \<Rightarrow> int \<Rightarrow> 'a list \<Rightarrow> nat \<Rightarrow> 'a heap \<times> addr" where
  "new_CollisionNode h sz hash array mutid =
    (h @ [CollisionNode sz hash array mutid], length h)"

text \<open>
  The tail shared by the three places of \<open>BitmapNode.add\<close> and \<open>BitmapNode.without\<close>
  that store a new entry in a slot:
  \<^verbatim>\<open>
      if mutid and mutid == self.mutid:
          ret = self
      else:
          ret = self.clone(mutid)
      ret.array[key_idx] = sub_node
  \<close>
  \<open>self\<close> is read from the store as it is at that moment.
\<close>

definition store_slot ::
  "'a heap \<Rightarrow> addr \<Rightarrow> nat \<Rightarrow> int \<Rightarrow> 'a slot \<Rightarrow> ('a heap, 'a exn, addr) outcome" where
  "store_slot h self mutid key_idx entry =
    (case node_at h self of
       Some (BitmapNode sz bitmap array smutid) \<Rightarrow>
         if mutid \<noteq> 0 \<and> mutid = smutid then
           (case py_set array key_idx entry of
              None \<Rightarrow> Raise h IndexError
            | Some array' \<Rightarrow> Return (h[self := BitmapNode sz bitmap array' smutid]) self)
         else
           (case new_BitmapNode h sz bitmap array mutid of
              Return h1 ret \<Rightarrow>
                (case py_set array key_idx entry of
                   None \<Rightarrow> Raise h1 IndexError
                 | Some array' \<Rightarrow> Return (h1[ret := BitmapNode sz bitmap array' mutid]) ret)
            | Raise h1 e \<Rightarrow> Raise h1 e
            | Diverge \<Rightarrow> Diverge)
     | _ \<Rightarrow> Raise h NoObject)"

subsection \<open>CollisionNode.find_index and CollisionNode.find\<close>

text \<open>\<open>for i in range(0, self.size, 1): if self.array[i] == key: return i\<close>, then \<open>-1\<close>.\<close>

fun find_index_loop :: "'a list \<Rightarrow> 'a \<Rightarrow> int \<Rightarrow> nat \<Rightarrow> 'a exn + int" where
  "find_index_loop array key i 0 = Inr (- 1)"
| "find_index_loop array key i (Suc n) =
    (case py_get array i of
       None \<Rightarrow> Inl IndexError
     | Some x \<Rightarrow> if x = key then Inr i else find_index_loop array key (i + 1) n)"

definition find_index :: "int \<Rightarrow> 'a list \<Rightarrow> 'a \<Rightarrow> 'a exn + int" where
  "find_index sz array key = find_index_loop array key 0 (nat sz)"

fun collision_find_loop :: "'a list \<Rightarrow> 'a \<Rightarrow> int \<Rightarrow> nat \<Rightarrow> 'a exn + bool" where
  "collision_find_loop array key i 0 = Inr False"
| "collision_find_loop array key i (Suc n) =
    (case py_get array i of
       None \<Rightarrow> Inl IndexError
     | Some x \<Rightarrow> if x = key then Inr True else collision_find_loop array key (i + 1) n)"

subsection \<open>add\<close>

fun add ::
  "nat \<Rightarrow> ('a \<Rightarrow> int) \<Rightarrow> 'a heap \<Rightarrow> addr \<Rightarrow> nat \<Rightarrow> int \<Rightarrow> 'a \<Rightarrow> nat
     \<Rightarrow> ('a heap, 'a exn, addr \<times> bool) outcome" where
  "add 0 hsh h self shift hash key mutid = Diverge"
| "add (Suc fuel) hsh h self shift hash key mutid =
    (case node_at h self of
       None \<Rightarrow> Raise h NoObject
     | Some (BitmapNode sz bitmap array smutid) \<Rightarrow>
        (let bitp = set_bitpos hash shift;
             key_idx = set_bitindex bitmap bitp
         in if bitmap AND bitp \<noteq> 0 then
              (case py_get array key_idx of
                 None \<Rightarrow> Raise h IndexError
               | Some (Ref child) \<Rightarrow>
                  (case add fuel hsh h child (shift + 5) hash key mutid of
                     Diverge \<Rightarrow> Diverge
                   | Raise h1 e \<Rightarrow> Raise h1 e
                   | Return h1 (sub_node, added) \<Rightarrow>
                       if child = sub_node then Return h1 (self, added)
                       else
                        (case store_slot h1 self mutid key_idx (Ref sub_node) of
                           Diverge \<Rightarrow> Diverge
                         | Raise h2 e \<Rightarrow> Raise h2 e
                         | Return h2 ret \<Rightarrow> Return h2 (ret, added)))
               | Some (Key key_or_node) \<Rightarrow>
                  if key = key_or_node then Return h (self, False)
                  else
                   (let existing_key_hash = set_hash hsh key_or_node;
                        sub =
                         (if existing_key_hash = hash then
                            (case new_CollisionNode h 4 hash [key_or_node, key] mutid of
                               (h1, sub_node) \<Rightarrow> Return h1 sub_node)
                          else
                            (case new_BitmapNode h 0 0 [] mutid of
                               Diverge \<Rightarrow> Diverge
                             | Raise h1 e \<Rightarrow> Raise h1 e
                             | Return h1 sub0 \<Rightarrow>
                                (case add fuel hsh h1 sub0 (shift + 5) existing_key_hash
                                        key_or_node mutid of
                                   Diverge \<Rightarrow> Diverge
                                 | Raise h2 e \<Rightarrow> Raise h2 e
                                 | Return h2 (sub1, _) \<Rightarrow>
                                    (case add fuel hsh h2 sub1 (shift + 5) hash key mutid of
                                       Diverge \<Rightarrow> Diverge
                                     | Raise h3 e \<Rightarrow> Raise h3 e
                                     | Return h3 (sub2, _) \<Rightarrow> Return h3 sub2))))
                    in case sub of
                         Diverge \<Rightarrow> Diverge
                       | Raise h1 e \<Rightarrow> Raise h1 e
                       | Return h1 sub_node \<Rightarrow>
                          (case store_slot h1 self mutid key_idx (Ref sub_node) of
                             Diverge \<Rightarrow> Diverge
                           | Raise h2 e \<Rightarrow> Raise h2 e
                           | Return h2 ret \<Rightarrow> Return h2 (ret, True))))
            else
              (let n = set_bitcount bitmap;
                   new_array = take (nat key_idx) array @ [Key key] @ drop (nat key_idx) array
               in if mutid \<noteq> 0 \<and> mutid = smutid then
                    Return (h[self := BitmapNode (n + 1) (bitmap OR bitp) new_array smutid])
                           (self, True)
                  else
                    (case new_BitmapNode h (n + 1) (bitmap OR bitp) new_array mutid of
                       Diverge \<Rightarrow> Diverge
                     | Raise h1 e \<Rightarrow> Raise h1 e
                     | Return h1 ret \<Rightarrow> Return h1 (ret, True))))
     | Some (CollisionNode sz chash array smutid) \<Rightarrow>
        if hash = chash then
          (case find_index sz array key of
             Inl e \<Rightarrow> Raise h e
           | Inr key_idx \<Rightarrow>
              if key_idx = - 1 then
                (let new_array = array @ [key]
                 in if mutid \<noteq> 0 \<and> mutid = smutid then
                      Return (h[self := CollisionNode (sz + 1) chash new_array smutid])
                             (self, True)
                    else
                      (case new_CollisionNode h (sz + 1) hash new_array mutid of
                         (h1, new_node) \<Rightarrow> Return h1 (new_node, True)))
              else Return h (self, False))
        else
          (case new_BitmapNode h 1 (set_bitpos chash shift) [Ref self] mutid of
             Diverge \<Rightarrow> Diverge
           | Raise h1 e \<Rightarrow> Raise h1 e
           | Return h1 new_node \<Rightarrow> add fuel hsh h1 new_node shift hash key mutid))"

subsection \<open>find\<close>

fun find ::
  "nat \<Rightarrow> 'a heap \<Rightarrow> addr \<Rightarrow> nat \<Rightarrow> int \<Rightarrow> 'a \<Rightarrow> ('a heap, 'a exn, bool) outcome" where
  "find 0 h self shift hash key = Diverge"
| "find (Suc fuel) h self shift hash key =
    (case node_at h self of
       None \<Rightarrow> Raise h NoObject
     | Some (BitmapNode sz bitmap array smutid) \<Rightarrow>
        (let bitp = set_bitpos hash shift
         in if bitmap AND bitp = 0 then Return h False
            else
             (let key_idx = set_bitindex bitmap bitp
              in case py_get array key_idx of
                   None \<Rightarrow> Raise h IndexError
                 | Some (Ref child) \<Rightarrow> find fuel h child (shift + 5) hash key
                 | Some (Key key_or_node) \<Rightarrow> Return h (key = key_or_node)))
     | Some (CollisionNode sz chash array smutid) \<Rightarrow>
        (case collision_find_loop array key 0 (nat sz) of
           Inl e \<Rightarrow> Raise h e
         | Inr b \<Rightarrow> Return h b))"

subsection \<open>without\<close>

text \<open>
  \<open>without\<close> returns a pair \<open>(res, node)\<close> whose second component is \<open>None\<close> unless
  \<open>res is W_NEWNODE\<close>.
\<close>

datatype without_result = W_EMPTY | W_NEWNODE addr | W_NOT_FOUND

fun without ::
  "nat \<Rightarrow> 'a heap \<Rightarrow> addr \<Rightarrow> nat \<Rightarrow> int \<Rightarrow> 'a \<Rightarrow> nat
     \<Rightarrow> ('a heap, 'a exn, without_result) outcome" where
  "without 0 h self shift hash key mutid = Diverge"
| "without (Suc fuel) h self shift hash key mutid =
    (case node_at h self of
       None \<Rightarrow> Raise h NoObject
     | Some (BitmapNode sz bitmap array smutid) \<Rightarrow>
        (let bitp = set_bitpos hash shift
         in if bitmap AND bitp = 0 then Return h W_NOT_FOUND
            else
             (let key_idx = set_bitindex bitmap bitp
              in case py_get array key_idx of
                   None \<Rightarrow> Raise h IndexError
                 | Some (Ref child) \<Rightarrow>
                    (case without fuel h child (shift + 5) hash key mutid of
                       Diverge \<Rightarrow> Diverge
                     | Raise h1 e \<Rightarrow> Raise h1 e
                     | Return h1 W_EMPTY \<Rightarrow> Raise h1 RuntimeError
                     | Return h1 W_NOT_FOUND \<Rightarrow> Return h1 W_NOT_FOUND
                     | Return h1 (W_NEWNODE sub_node) \<Rightarrow>
                        (let inlined =
                           (case node_at h1 sub_node of
                              None \<Rightarrow> Inl NoObject
                            | Some (CollisionNode _ _ _ _) \<Rightarrow> Inr (Ref sub_node)
                            | Some (BitmapNode ssz _ sarray _) \<Rightarrow>
                               if ssz = 1 then
                                 (case py_get sarray 0 of
                                    None \<Rightarrow> Inl IndexError
                                  | Some (Ref _) \<Rightarrow> Inr (Ref sub_node)
                                  | Some (Key k) \<Rightarrow> Inr (Key k))
                               else Inr (Ref sub_node))
                         in case inlined of
                              Inl e \<Rightarrow> Raise h1 e
                            | Inr entry \<Rightarrow>
                               (case store_slot h1 self mutid key_idx entry of
                                  Diverge \<Rightarrow> Diverge
                                | Raise h2 e \<Rightarrow> Raise h2 e
                                | Return h2 ret \<Rightarrow> Return h2 (W_NEWNODE ret))))
                 | Some (Key key_or_node) \<Rightarrow>
                    if key = key_or_node then
                      (if sz = 1 then Return h W_EMPTY
                       else
                        (let new_array = take (nat key_idx) array @ drop (nat (key_idx + 1)) array
                         in if mutid \<noteq> 0 \<and> mutid = smutid then
                              Return (h[self := BitmapNode (sz - 1) (bitmap AND (NOT bitp))
                                                  new_array smutid])
                                     (W_NEWNODE self)
                            else
                              (case new_BitmapNode h (sz - 1) (bitmap AND (NOT bitp))
                                      new_array mutid of
                                 Diverge \<Rightarrow> Diverge
                               | Raise h1 e \<Rightarrow> Raise h1 e
                               | Return h1 new_node \<Rightarrow> Return h1 (W_NEWNODE new_node))))
                    else Return h W_NOT_FOUND))
     | Some (CollisionNode sz chash array smutid) \<Rightarrow>
        if hash \<noteq> chash then Return h W_NOT_FOUND
        else
         (case find_index sz array key of
            Inl e \<Rightarrow> Raise h e
          | Inr key_idx \<Rightarrow>
             if key_idx = - 1 then Return h W_NOT_FOUND
             else
              (let new_size = sz - 1
               in if new_size = 0 then Return h W_EMPTY
                  else if new_size = 1 then
                    (let survivor =
                       (if key_idx = 0 then
                          (case py_get array 1 of None \<Rightarrow> Inl IndexError | Some x \<Rightarrow> Inr x)
                        else if key_idx = 1 then
                          (case py_get array 0 of None \<Rightarrow> Inl IndexError | Some x \<Rightarrow> Inr x)
                        else Inl AssertionError)
                     in case survivor of
                          Inl e \<Rightarrow> Raise h e
                        | Inr x \<Rightarrow>
                           (case new_BitmapNode h 1 (set_bitpos hash shift) [Key x] mutid of
                              Diverge \<Rightarrow> Diverge
                            | Raise h1 e \<Rightarrow> Raise h1 e
                            | Return h1 new_node \<Rightarrow> Return h1 (W_NEWNODE new_node)))
                  else
                    (let new_array = take (nat key_idx) array @ drop (nat (key_idx + 1)) array
                     in if mutid \<noteq> 0 \<and> mutid = smutid then
                          Return (h[self := CollisionNode (sz - 1) chash new_array smutid])
                                 (W_NEWNODE self)
                        else
                          (case new_CollisionNode h (sz - 1) chash new_array mutid of
                             (h1, new_node) \<Rightarrow> Return h1 (W_NEWNODE new_node))))))"

subsection \<open>Iteration\<close>

text \<open>
  \<open>BitmapNode.__iter__\<close> walks \<open>array[0] .. array[size - 1]\<close>, descending into child nodes;
  \<open>CollisionNode.__iter__\<close> yields its whole array. The generator is modelled by the list
  of the elements it yields, in order, when it is run to its end, together with the
  exception that ended it, if one did.
\<close>

fun iter_node :: "nat \<Rightarrow> 'a heap \<Rightarrow> addr \<Rightarrow> ('a list \<times> 'a exn option) option"
  and iter_slots ::
    "nat \<Rightarrow> 'a heap \<Rightarrow> 'a slot list \<Rightarrow> int \<Rightarrow> nat \<Rightarrow> ('a list \<times> 'a exn option) option"
  where
  "iter_node 0 h self = None"
| "iter_node (Suc fuel) h self =
    (case node_at h self of
       None \<Rightarrow> Some ([], Some NoObject)
     | Some (BitmapNode sz bitmap array smutid) \<Rightarrow> iter_slots fuel h array 0 (nat sz)
     | Some (CollisionNode sz chash array smutid) \<Rightarrow> Some (array, None))"
| "iter_slots fuel h array i 0 = Some ([], None)"
| "iter_slots fuel h array i (Suc n) =
    (case py_get array i of
       None \<Rightarrow> Some ([], Some IndexError)
     | Some (Key k) \<Rightarrow>
        (case iter_slots fuel h array (i + 1) n of
           None \<Rightarrow> None
         | Some (ks, err) \<Rightarrow> Some (k # ks, err))
     | Some (Ref child) \<Rightarrow>
        (case iter_node fuel h child of
           None \<Rightarrow> None
         | Some (ks1, Some e) \<Rightarrow> Some (ks1, Some e)
         | Some (ks1, None) \<Rightarrow>
            (case iter_slots fuel h array (i + 1) n of
               None \<Rightarrow> None
             | Some (ks2, err) \<Rightarrow> Some (ks1 @ ks2, err))))"

subsection \<open>The program state\<close>

text \<open>
  \<open>Set\<close> objects (fields \<open>__count\<close>, \<open>__root\<close>, \<open>__hash\<close>) and \<open>SetMutation\<close> objects
  (fields \<open>__count\<close>, \<open>__root\<close>, \<open>__mutid\<close>) have their own stores. \<open>mut_id\<close> is the value
  the module's counter \<open>_mut_id\<close> gives next; it starts at 1.
\<close>

record set_obj =
  s_count :: int
  s_root :: addr
  s_hash :: int

record mut_obj =
  m_count :: int
  m_root :: addr
  m_mutid :: nat

record 'a state =
  nodes :: "'a heap"
  sets :: "set_obj list"
  muts :: "mut_obj list"
  mut_id :: nat

definition init_state :: "'a state" where
  "init_state = \<lparr>nodes = [], sets = [], muts = [], mut_id = 1\<rparr>"

definition set_at :: "'a state \<Rightarrow> addr \<Rightarrow> set_obj option" where
  "set_at st s = (if s < length (sets st) then Some (sets st ! s) else None)"

definition mut_at :: "'a state \<Rightarrow> addr \<Rightarrow> mut_obj option" where
  "mut_at st m = (if m < length (muts st) then Some (muts st ! m) else None)"

subsection \<open>Set\<close>

text \<open>\<open>Set._new(count, root)\<close>: a new object, its hash not computed yet.\<close>

definition Set_new :: "'a state \<Rightarrow> int \<Rightarrow> addr \<Rightarrow> 'a state \<times> addr" where
  "Set_new st count root =
    (st\<lparr>sets := sets st @ [\<lparr>s_count = count, s_root = root, s_hash = - 1\<rparr>]\<rparr>,
     length (sets st))"

text \<open>\<open>Set()\<close>: a new object on a new empty root \<open>BitmapNode(0, 0, [], 0)\<close>.\<close>

definition Set_init :: "'a state \<Rightarrow> 'a state \<times> addr" where
  "Set_init st =
    (st\<lparr>nodes := nodes st @ [BitmapNode 0 0 [] 0],
        sets := sets st @ [\<lparr>s_count = 0, s_root = length (nodes st), s_hash = - 1\<rparr>]\<rparr>,
     length (sets st))"

definition Set_len :: "'a state \<Rightarrow> addr \<Rightarrow> ('a state, 'a exn, int) outcome" where
  "Set_len st self =
    (case set_at st self of
       None \<Rightarrow> Raise st NoObject
     | Some so \<Rightarrow> Return st (s_count so))"

definition Set_contains ::
  "nat \<Rightarrow> ('a \<Rightarrow> int) \<Rightarrow> 'a state \<Rightarrow> addr \<Rightarrow> 'a \<Rightarrow> ('a state, 'a exn, bool) outcome" where
  "Set_contains fuel hsh st self element =
    (case set_at st self of
       None \<Rightarrow> Raise st NoObject
     | Some so \<Rightarrow>
        (case find fuel (nodes st) (s_root so) 0 (set_hash hsh element) element of
           Diverge \<Rightarrow> Diverge
         | Raise h1 e \<Rightarrow> Raise (st\<lparr>nodes := h1\<rparr>) e
         | Return h1 b \<Rightarrow> Return (st\<lparr>nodes := h1\<rparr>) b))"

definition Set_include ::
  "nat \<Rightarrow> ('a \<Rightarrow> int) \<Rightarrow> 'a state \<Rightarrow> addr \<Rightarrow> 'a \<Rightarrow> ('a state, 'a exn, addr) outcome" where
  "Set_include fuel hsh st self element =
    (case set_at st self of
       None \<Rightarrow> Raise st NoObject
     | Some so \<Rightarrow>
        (let new_count = s_count so
         in case add fuel hsh (nodes st) (s_root so) 0 (set_hash hsh element) element 0 of
              Diverge \<Rightarrow> Diverge
            | Raise h1 e \<Rightarrow> Raise (st\<lparr>nodes := h1\<rparr>) e
            | Return h1 (new_root, added) \<Rightarrow>
               if new_root = s_root so then
                 (if added then Raise (st\<lparr>nodes := h1\<rparr>) AssertionError
                  else Return (st\<lparr>nodes := h1\<rparr>) self)
               else
                 (case Set_new (st\<lparr>nodes := h1\<rparr>)
                         (if added then new_count + 1 else new_count) new_root of
                    (st2, s2) \<Rightarrow> Return st2 s2)))"

definition Set_exclude ::
  "nat \<Rightarrow> ('a \<Rightarrow> int) \<Rightarrow> 'a state \<Rightarrow> addr \<Rightarrow> 'a \<Rightarrow> ('a state, 'a exn, addr) outcome" where
  "Set_exclude fuel hsh st self element =
    (case set_at st self of
       None \<Rightarrow> Raise st NoObject
     | Some so \<Rightarrow>
        (case without fuel (nodes st) (s_root so) 0 (set_hash hsh element) element 0 of
           Diverge \<Rightarrow> Diverge
         | Raise h1 e \<Rightarrow> Raise (st\<lparr>nodes := h1\<rparr>) e
         | Return h1 W_EMPTY \<Rightarrow> (case Set_init (st\<lparr>nodes := h1\<rparr>) of (st2, s2) \<Rightarrow> Return st2 s2)
         | Return h1 W_NOT_FOUND \<Rightarrow> Raise (st\<lparr>nodes := h1\<rparr>) (KeyError element)
         | Return h1 (W_NEWNODE node) \<Rightarrow>
            (case Set_new (st\<lparr>nodes := h1\<rparr>) (s_count so - 1) node of
               (st2, s2) \<Rightarrow> Return st2 s2)))"

text \<open>
  The loop of \<open>Set.update\<close> and \<open>SetMutation.update\<close> over the chained iterables, on the
  local variables \<open>root\<close> and \<open>count\<close>.
\<close>

fun update_loop ::
  "nat \<Rightarrow> ('a \<Rightarrow> int) \<Rightarrow> 'a heap \<Rightarrow> addr \<Rightarrow> int \<Rightarrow> nat \<Rightarrow> 'a list
     \<Rightarrow> ('a heap, 'a exn, addr \<times> int) outcome" where
  "update_loop fuel hsh h root count mutid [] = Return h (root, count)"
| "update_loop fuel hsh h root count mutid (element # rest) =
    (case add fuel hsh h root 0 (set_hash hsh element) element mutid of
       Diverge \<Rightarrow> Diverge
     | Raise h1 e \<Rightarrow> Raise h1 e
     | Return h1 (root1, added) \<Rightarrow>
        update_loop fuel hsh h1 root1 (if added then count + 1 else count) mutid rest)"

definition Set_update ::
  "nat \<Rightarrow> ('a \<Rightarrow> int) \<Rightarrow> 'a state \<Rightarrow> addr \<Rightarrow> 'a list list \<Rightarrow> ('a state, 'a exn, addr) outcome"
  where
  "Set_update fuel hsh st self args =
    (if args = [] then Return st self
     else
      (case set_at st self of
         None \<Rightarrow> Raise st NoObject
       | Some so \<Rightarrow>
          (let mutid = mut_id st;
               st1 = st\<lparr>mut_id := mut_id st + 1\<rparr>
           in case update_loop fuel hsh (nodes st1) (s_root so) (s_count so) mutid
                     (concat args) of
                Diverge \<Rightarrow> Diverge
              | Raise h1 e \<Rightarrow> Raise (st1\<lparr>nodes := h1\<rparr>) e
              | Return h1 (root, count) \<Rightarrow>
                 (case Set_new (st1\<lparr>nodes := h1\<rparr>) count root of
                    (st2, s2) \<Rightarrow> Return st2 s2))))"

text \<open>\<open>Set.mutate\<close>: a new \<open>SetMutation(count, root)\<close>, with the next mutid.\<close>

definition Set_mutate :: "'a state \<Rightarrow> addr \<Rightarrow> ('a state, 'a exn, addr) outcome" where
  "Set_mutate st self =
    (case set_at st self of
       None \<Rightarrow> Raise st NoObject
     | Some so \<Rightarrow>
        Return (st\<lparr>muts := muts st @ [\<lparr>m_count = s_count so, m_root = s_root so,
                                         m_mutid = mut_id st\<rparr>],
                   mut_id := mut_id st + 1\<rparr>)
               (length (muts st)))"



subsection \<open>SetMutation\<close>

text \<open>
  \<open>SetMutation.__repr__\<close>:
  \<^verbatim>\<open>
      items = []
      for element in self.__root:
          items.append(repr(element))
  \<close>
  and then the text made of the items and of \<open>id(self)\<close>. \<open>repr_items\<close> runs the loop on
  the elements the iteration yields and on the exception that ends the iteration, if any:
  the result is the first exception raised, or the items.
\<close>

fun repr_items :: "('a \<Rightarrow> 'a exn + string) \<Rightarrow> 'a list \<Rightarrow> 'a exn option \<Rightarrow> 'a exn + string list"
  where
  "repr_items rpr [] None = Inr []"
| "repr_items rpr [] (Some e) = Inl e"
| "repr_items rpr (element # rest) err =
    (case rpr element of
       Inl e \<Rightarrow> Inl e
     | Inr item \<Rightarrow>
        (case repr_items rpr rest err of
           Inl e \<Rightarrow> Inl e
         | Inr items \<Rightarrow> Inr (item # items)))"

definition SetMutation_repr ::
  "nat \<Rightarrow> ('a \<Rightarrow> 'a exn + string) \<Rightarrow> 'a state \<Rightarrow> mut_obj \<Rightarrow> ('a exn + string list) option"
  where
  "SetMutation_repr fuel rpr st mo =
    (case iter_node fuel (nodes st) (m_root mo) of
       None \<Rightarrow> None
     | Some (keys, err) \<Rightarrow> Some (repr_items rpr keys err))"

text \<open>
  \<open>raise ValueError('mutation {!r} has been finished'.format(self))\<close>: the message is
  formatted first, which calls \<open>repr(self)\<close>; an exception raised there is the one that
  leaves the method.
\<close>

definition raise_finished ::
  "nat \<Rightarrow> ('a \<Rightarrow> 'a exn + string) \<Rightarrow> 'a state \<Rightarrow> mut_obj \<Rightarrow> ('a state, 'a exn, 'v) outcome"
  where
  "raise_finished fuel rpr st mo =
    (case SetMutation_repr fuel rpr st mo of
       None \<Rightarrow> Diverge
     | Some (Inl e) \<Rightarrow> Raise st e
     | Some (Inr items) \<Rightarrow> Raise st ValueError)"

text \<open>
  The methods return \<open>None\<close>, except \<open>update\<close> with no argument, which returns \<open>self\<close>, and
  \<open>finish\<close>, which returns the new \<open>Set\<close>.
\<close>

definition SetMutation_include ::
  "nat \<Rightarrow> ('a \<Rightarrow> int) \<Rightarrow> ('a \<Rightarrow> 'a exn + string) \<Rightarrow> 'a state \<Rightarrow> addr \<Rightarrow> 'a
     \<Rightarrow> ('a state, 'a exn, unit) outcome" where
  "SetMutation_include fuel hsh rpr st self element =
    (case mut_at st self of
       None \<Rightarrow> Raise st NoObject
     | Some mo \<Rightarrow>
        if m_mutid mo = 0 then raise_finished fuel rpr st mo
        else
         (case add fuel hsh (nodes st) (m_root mo) 0 (set_hash hsh element) element
                 (m_mutid mo) of
            Diverge \<Rightarrow> Diverge
          | Raise h1 e \<Rightarrow> Raise (st\<lparr>nodes := h1\<rparr>) e
          | Return h1 (new_root, added) \<Rightarrow>
             Return (st\<lparr>nodes := h1,
                        muts := (muts st)[self := mo\<lparr>m_root := new_root,
                                   m_count := (if added then m_count mo + 1 else m_count mo)\<rparr>]\<rparr>)
                    ()))"


definition SetMutation_update ::
  "nat \<Rightarrow> ('a \<Rightarrow> int) \<Rightarrow> ('a \<Rightarrow> 'a exn + string) \<Rightarrow> 'a state \<Rightarrow> addr \<Rightarrow> 'a list list
     \<Rightarrow> ('a state, 'a exn, addr option) outcome" where
  "SetMutation_update fuel hsh rpr st self args =
    (case mut_at st self of
       None \<Rightarrow> Raise st NoObject
     | Some mo \<Rightarrow>
        if m_mutid mo = 0 then raise_finished fuel rpr st mo
        else if args = [] then Return st (Some self)
        else
         (case update_loop fuel hsh (nodes st) (m_root mo) (m_count mo) (m_mutid mo)
                 (concat args) of
            Diverge \<Rightarrow> Diverge
          | Raise h1 e \<Rightarrow> Raise (st\<lparr>nodes := h1\<rparr>) e
          | Return h1 (root, count) \<Rightarrow>
             Return (st\<lparr>nodes := h1,
                        muts := (muts st)[self := mo\<lparr>m_root := root, m_count := count\<rparr>]\<rparr>)
                    None))"

definition SetMutation_finish :: "'a state \<Rightarrow> addr \<Rightarrow> ('a state, 'a exn, addr) outcome" where
  "SetMutation_finish st self =
    (case mut_at st self of
       None \<Rightarrow> Raise st NoObject
     | Some mo \<Rightarrow>
        (case Set_new (st\<lparr>muts := (muts st)[self := mo\<lparr>m_mutid := 0\<rparr>]\<rparr>)
                (m_count mo) (m_root mo) of
           (st2, s2) \<Rightarrow> Return st2 s2))"

subsection \<open>Concrete objects\<close>

text \<open>
  The keys of the test suite, \<open>HashKey(hash, name)\<close>, are pairs of their hash and their
  name, equal when both are; the host hash is the first component. \<open>two_colliding\<close> is
  the state after \<open>Set().include(k1).include(k2)\<close> for two keys of hash 10, as in
  \<open>test_set_collision_1\<close>; the set is the object 2.
\<close>

definition k1 :: "int \<times> string" where "k1 = (10, ''aaa'')"
definition k2 :: "int \<times> string" where "k2 = (10, ''bbb'')"
definition k3 :: "int \<times> string" where "k3 = (10, ''ccc'')"

definition two_colliding :: "(int \<times> string) state" where
  "two_colliding =
    \<lparr>nodes = [BitmapNode 0 0 [] 0, BitmapNode 1 1024 [Key k1] 0,
              CollisionNode 4 10 [k1, k2] 0, BitmapNode 1 1024 [Ref 2] 0],
     sets = [\<lparr>s_count = 0, s_root = 0, s_hash = - 1\<rparr>,
             \<lparr>s_count = 1, s_root = 1, s_hash = - 1\<rparr>,
             \<lparr>s_count = 2, s_root = 3, s_hash = - 1\<rparr>],
     muts = [], mut_id = 1\<rparr>"

text \<open>The state after \<open>Set().mutate()\<close>: the mutator is the object 0 of its store.\<close>

definition one_mutator :: "(int \<times> string) state" where
  "one_mutator =
    \<lparr>nodes = [BitmapNode 0 0 [] 0],
     sets = [\<lparr>s_count = 0, s_root = 0, s_hash = - 1\<rparr>],
     muts = [\<lparr>m_count = 0, m_root = 0, m_mutid = 1\<rparr>], mut_id = 2\<rparr>"

text \<open>
  The state after \<open>m = Set().mutate(); m.include(k1); m.finish()\<close>: the mutator is the
  object 0 of its store, the set that \<open>finish\<close> returned is the object 1 of its store.
\<close>

definition finished_mutator :: "(int \<times> string) state" where
  "finished_mutator =
    \<lparr>nodes = [BitmapNode 0 0 [] 0, BitmapNode 1 1024 [Key k1] 1],
     sets = [\<lparr>s_count = 0, s_root = 0, s_hash = - 1\<rparr>,
             \<lparr>s_count = 1, s_root = 1, s_hash = - 1\<rparr>],
     muts = [\<lparr>m_count = 1, m_root = 1, m_mutid = 0\<rparr>], mut_id = 2\<rparr>"

text \<open>
  Two hosts' \<open>repr\<close> on the keys: one that returns the name, and the one of the test
  suite under \<open>HashKeyCrasher(error_on_repr=True)\<close>, which raises \<open>ReprError\<close>.
\<close>

definition name_repr :: "int \<times> string \<Rightarrow> (int \<times> string) exn + string" where
  "name_repr k = Inr (snd k)"


subsection \<open>Acyclic stores\<close>



subsection \<open>Observations used in the statements\<close>


text \<open>
  \<open>nested_pair\<close> is the state after \<open>Set().include(kA).include(kB)\<close> for two keys whose
  hashes 0 and 32 agree on the first five bits and differ on the next five: the root
  (object 5) holds one child bitmap node (object 4), which holds the two keys. The set
  is the object 2.
\<close>

definition kA :: "int \<times> string" where "kA = (0, ''A'')"
definition kB :: "int \<times> string" where "kB = (32, ''B'')"

definition nested_pair :: "(int \<times> string) state" where
  "nested_pair =
    \<lparr>nodes = [BitmapNode 0 0 [] 0, BitmapNode 1 1 [Key kA] 0,
              BitmapNode 0 0 [] 0, BitmapNode 1 1 [Key kA] 0,
              BitmapNode 2 3 [Key kA, Key kB] 0, BitmapNode 1 1 [Ref 4] 0],
     sets = [\<lparr>s_count = 0, s_root = 0, s_hash = - 1\<rparr>,
             \<lparr>s_count = 1, s_root = 1, s_hash = - 1\<rparr>,
             \<lparr>s_count = 2, s_root = 5, s_hash = - 1\<rparr>],
     muts = [], mut_id = 1\<rparr>"

subsection \<open>The structural hash as the specification words it\<close>



text \<open>
  The state after \<open>Set().include(kX)\<close> for a key of host hash \<open>2 ^ 32\<close>, whose 32-bit
  fold is 1. The set is the object 1.
\<close>

definition kX :: "int \<times> string" where "kX = (4294967296, ''x'')"

definition wide_hash_set :: "(int \<times> string) state" where
  "wide_hash_set =
    \<lparr>nodes = [BitmapNode 0 0 [] 0, BitmapNode 1 2 [Key kX] 0],
     sets = [\<lparr>s_count = 0, s_root = 0, s_hash = - 1\<rparr>,
             \<lparr>s_count = 1, s_root = 1, s_hash = - 1\<rparr>],
     muts = [], mut_id = 1\<rparr>"

section \<open>Properties\<close>

subsection \<open>The concrete states are states of the program\<close>

lemma two_colliding_built:
  "(case Set_init init_state of (st0, s0) \<Rightarrow>
      (case Set_include 1 fst st0 s0 k1 of
         Return st1 s1 \<Rightarrow> Set_include 1 fst st1 s1 k2
       | r \<Rightarrow> r)) = Return two_colliding 2"
  by code_simp

lemma one_mutator_built:
  "(case Set_init init_state of (st0, s0) \<Rightarrow> Set_mutate st0 s0) = Return one_mutator 0"
  by code_simp

lemma finished_mutator_built:
  "(case Set_init init_state of (st0, s0) \<Rightarrow>
      (case Set_mutate st0 s0 of
         Return st1 m \<Rightarrow>
           (case SetMutation_include 1 fst name_repr st1 m k1 of
              Return st2 u \<Rightarrow> SetMutation_finish st2 m
            | Raise st2 e \<Rightarrow> Raise st2 e
            | Diverge \<Rightarrow> Diverge)
       | r \<Rightarrow> r)) = Return finished_mutator 1"
  by code_simp

subsection \<open>Collision nodes are created with size 4 for two elements\<close>

text \<open>
  C1. In a set whose two elements share their 32-bit hash, excluding one of them should
  promote the survivor into a singleton bitmap node, so that no collision node with
  fewer than two elements stays reachable. The code creates the collision node with
  \<open>size = 4\<close> for its two elements (\<open>BitmapNode.add\<close>), so \<open>CollisionNode.without\<close>
  computes \<open>new_size = 3\<close>, skips the promotion and returns a collision node holding the
  one survivor, which the new root references.
\<close>

theorem exclude_leaves_collision_of_one:
  "Set_exclude 2 fst two_colliding 2 k1 =
     Return
       \<lparr>nodes = [BitmapNode 0 0 [] 0, BitmapNode 1 1024 [Key k1] 0,
                 CollisionNode 4 10 [k1, k2] 0, BitmapNode 1 1024 [Ref 2] 0,
                 CollisionNode 3 10 [k2] 0, BitmapNode 1 1024 [Ref 4] 0],
        sets = [\<lparr>s_count = 0, s_root = 0, s_hash = - 1\<rparr>,
                \<lparr>s_count = 1, s_root = 1, s_hash = - 1\<rparr>,
                \<lparr>s_count = 2, s_root = 3, s_hash = - 1\<rparr>,
                \<lparr>s_count = 1, s_root = 5, s_hash = - 1\<rparr>],
        muts = [], mut_id = 1\<rparr>
       3"
  by code_simp

text \<open>
  C2. Adding a third element of the same hash to a collision node of two should search
  the array, not find it, append it and return with \<open>added = True\<close>. On the collision node
  of \<open>two_colliding\<close> (object 2, reached at shift 5) the search runs over
  \<open>range(0, 4)\<close> and reads \<open>array[2]\<close>: \<open>IndexError\<close>.
\<close>

theorem collision_add_third_raises:
  "add 1 fst (nodes two_colliding) 2 5 10 k3 0 = Raise (nodes two_colliding) IndexError"
  by code_simp

text \<open>
  C3. Excluding an absent element should fail with \<open>KeyError\<close> carrying the element.
  For an absent element whose hash is that of a collision node the search of
  \<open>find_index\<close> leaves the array first: \<open>IndexError\<close>.
\<close>

theorem exclude_absent_colliding_raises_IndexError:
  "Set_exclude 2 fst two_colliding 2 k3 = Raise two_colliding IndexError"
  by code_simp

text \<open>
  C4. The length of \<open>s.include(e)\<close> should be \<open>len(s) + 1\<close> for an absent \<open>e\<close>. With \<open>s\<close>
  the set of \<open>two_colliding\<close> and \<open>e = k3\<close>, \<open>k3 in s\<close> and \<open>s.include(k3)\<close> both raise
  \<open>IndexError\<close>, and no set of length 3 is made.
\<close>

theorem include_third_colliding_raises:
  "Set_len two_colliding 2 = Return two_colliding 2 \<and>
   Set_contains 2 fst two_colliding 2 k3 = Raise two_colliding IndexError \<and>
   Set_include 2 fst two_colliding 2 k3 = Raise two_colliding IndexError"
  by code_simp

subsection \<open>Iteration ends on acyclic stores\<close>







subsection \<open>Finished mutators\<close>








subsection \<open>update without arguments\<close>

text \<open>
  C10. \<open>s.update()\<close> with no iterable returns the object \<open>s\<close> itself and changes nothing;
  on a mutator that is not finished, \<open>update()\<close> with no iterable returns the mutator
  itself and changes nothing, its count and root included.
\<close>

theorem update_no_args_returns_self:
  "Set_update fuel hsh st s [] = Return st s \<and>
   (mut_at st m = Some mo \<and> m_mutid mo \<noteq> 0 \<longrightarrow>
      SetMutation_update fuel hsh rpr st m [] = Return st (Some m))"
  by (simp add: Set_update_def SetMutation_update_def)

theorem update_no_args_returns_self_witness:
  "mut_at one_mutator 0 = Some \<lparr>m_count = 0, m_root = 0, m_mutid = 1\<rparr> \<and>
   m_mutid \<lparr>m_count = 0, m_root = 0, m_mutid = 1\<rparr> \<noteq> 0 \<and>
   Set_update 0 fst one_mutator 0 [] = Return one_mutator 0 \<and>
   SetMutation_update 0 fst name_repr one_mutator 0 [] = Return one_mutator (Some 0)"
proof -
  have h: "mut_at one_mutator 0 = Some \<lparr>m_count = 0, m_root = 0, m_mutid = 1\<rparr>"
    by (simp add: mut_at_def one_mutator_def)
  show ?thesis
    using h update_no_args_returns_self
            [of 0 fst one_mutator 0 0 "\<lparr>m_count = 0, m_root = 0, m_mutid = 1\<rparr>" name_repr]
    by simp
qed

lemma nested_pair_built:
  "(case Set_init init_state of (st0, s0) \<Rightarrow>
      (case Set_include 2 fst st0 s0 kA of
         Return st1 s1 \<Rightarrow> Set_include 2 fst st1 s1 kB
       | r \<Rightarrow> r)) = Return nested_pair 2"
  by code_simp

subsection \<open>Inlining on delete\<close>







subsection \<open>The structural hash\<close>

lemma wide_hash_set_built:
  "(case Set_init init_state of (st0, s0) \<Rightarrow> Set_include 1 fst st0 s0 kX)
     = Return wide_hash_set 1"
  by code_simp











end
